theory Spec2Isabelle
  imports Main
begin

section \<open>The Buy Button of the SQL course: data model\<close>

text \<open>
  The component \<open>BuyButton\<close> of \<open>src/components/SQLCourse/BuyButton.tsx\<close> is embedded as
  a family of state transformers. Everything the component does to the outside world
  (deleting a URL parameter, firing an analytics event, assigning
  \<open>window.location.href\<close>, arming a timer, showing a toast, logging to the console,
  posting to the billing API) is appended to a log of effects, in the order in which the
  source performs it. A callback handed to a collaborator is kept as the list of effects
  it performs once the collaborator runs it.
\<close>

definition SQL_COURSE_SLUG :: string where
  "SQL_COURSE_SLUG = ''sql''"

text \<open>
  The two parameter names are imported from \<open>lib/jwt\<close> and the base address of the course
  application comes from the build environment; the component only passes them on, so
  they are parameters of the model.
\<close>

record config =
  COURSE_PURCHASE_PARAM :: string
  COURSE_PURCHASE_SUCCESS_PARAM :: string
  PUBLIC_COURSE_APP_URL :: string

record CreateCheckoutSessionBody =
  courseId :: string
  success :: "string option"
  cancel :: "string option"

record CreateCheckoutSessionResponse =
  checkoutUrl :: string

text \<open>The error a rejected request carries; its message may be missing.\<close>

record request_error =
  message :: "string option"

datatype variant = VMain | VFloating | VTopNav

text \<open>
  Modelled from the spec: the pricing snapshot \<open>{fullPrice, regionalPrice,
  isEligibleForDiscount}\<close> returned by the pricing query, whose declaration is in
  \<open>queries/billing\<close>.
\<close>

record course_pricing =
  fullPrice :: nat
  regionalPrice :: nat
  isEligibleForDiscount :: bool

text \<open>
  Modelled from the spec: the enrollment status \<open>{enrolledAt: timestamp | absent}\<close>
  returned by the enrollment query, whose declaration is in \<open>queries/course-progress\<close>.
  A timestamp is a date object, which JavaScript always takes for true.
\<close>

datatype date = Date int

record course_progress =
  enrolledAt :: "date option"

datatype effect =
    DeleteUrlParam string
  | FireEvent (action: string) (category: string) (label: string)
      (callback: "effect list option")
  | SetTimeout "effect list" nat
  | SetLocationHref string
  | ToastLoading string
  | ToastError string
  | ConsoleError request_error
  | HttpPost string CreateCheckoutSessionBody

record state =
  urlParams :: "string \<rightharpoonup> string"
  loggedIn :: bool
  gtag :: bool
  variant_prop :: variant
  isLoginPopupOpen :: bool
  isLoadingCourse :: bool
  coursePricing :: "course_pricing option"
  isLoadingCourseProgress :: bool
  courseProgress :: "course_progress option"
  inflight :: "CreateCheckoutSessionBody list"
  isCreatingCheckoutSession :: bool
  log :: "effect list"

section \<open>Collaborators\<close>

definition emit :: "effect \<Rightarrow> state \<Rightarrow> state" where
  "emit e s = s\<lparr>log := log s @ [e]\<rparr>"

text \<open>
  Modelled from the spec: \<open>getUrlParams\<close> of \<open>lib/browser\<close> reads the current parameters
  as a mapping from name to string.
\<close>

definition getUrlParams :: "state \<Rightarrow> (string \<rightharpoonup> string)" where
  "getUrlParams s = urlParams s"

text \<open>
  Modelled from the spec: \<open>deleteUrlParam\<close> of \<open>lib/browser\<close> deletes a named parameter
  from the current address without a full page reload. The call itself is logged.
\<close>

definition deleteUrlParam :: "string \<Rightarrow> state \<Rightarrow> state" where
  "deleteUrlParam k s = emit (DeleteUrlParam k) (s\<lparr>urlParams := (urlParams s)(k := None)\<rparr>)"

text \<open>
  Modelled from the spec: \<open>isLoggedIn\<close> of \<open>lib/jwt\<close> is a synchronous predicate on the
  session; the model reads it from the state.
\<close>

definition isLoggedIn :: "state \<Rightarrow> bool" where
  "isLoggedIn s = loggedIn s"

text \<open>
  \<open>window.fireEvent\<close> is a global of the page, declared as always there; a call to it
  is logged with its arguments.
\<close>

definition fireEvent :: "string \<Rightarrow> string \<Rightarrow> string \<Rightarrow> effect list option \<Rightarrow> state \<Rightarrow> state" where
  "fireEvent a c l cb s = emit (FireEvent a c l cb) s"

text \<open>JavaScript's truth value of an optional string: undefined and the empty string are false.\<close>

definition truthy :: "string option \<Rightarrow> bool" where
  "truthy p = (case p of None \<Rightarrow> False | Some v \<Rightarrow> v \<noteq> [])"

section \<open>The checkout-session command\<close>

text \<open>
  \<open>useMutation\<close> of the query library: \<open>onMutate\<close> runs when a command is issued, then the
  request is posted; every command settles once, through \<open>onSuccess\<close> or \<open>onError\<close>.
  The flag \<open>isPending\<close> follows the command issued last. The log records the request
  where the command is issued; the library posts it once the synchronous code that
  issued the command has run to its end.
\<close>

definition onMutate :: "state \<Rightarrow> state" where
  "onMutate s = emit (ToastLoading ''Creating checkout session...'') s"

definition mutationFn :: "CreateCheckoutSessionBody \<Rightarrow> state \<Rightarrow> state" where
  "mutationFn body s = emit (HttpPost ''/v1-create-checkout-session'' body) s"

definition createCheckoutSession :: "CreateCheckoutSessionBody \<Rightarrow> state \<Rightarrow> state" where
  "createCheckoutSession body s =
     mutationFn body
       (onMutate (s\<lparr>inflight := inflight s @ [body], isCreatingCheckoutSession := True\<rparr>))"

definition onSuccess :: "CreateCheckoutSessionResponse \<Rightarrow> state \<Rightarrow> state" where
  "onSuccess d s =
     (if \<not> gtag s then emit (SetLocationHref (checkoutUrl d)) s
      else emit (SetTimeout [SetLocationHref (checkoutUrl d)] 3000)
             (fireEvent (SQL_COURSE_SLUG @ ''_begin_checkout'') ''course''
                (SQL_COURSE_SLUG @ '' Course Checkout Started'')
                (Some [SetLocationHref (checkoutUrl d)]) s))"

text \<open>JavaScript's \<open>a || b\<close> on an optional string \<open>a\<close>.\<close>

definition or_else :: "string option \<Rightarrow> string \<Rightarrow> string" where
  "or_else p dflt = (case p of None \<Rightarrow> dflt | Some v \<Rightarrow> if v = [] then dflt else v)"

definition onError :: "request_error \<Rightarrow> state \<Rightarrow> state" where
  "onError err s =
     emit (ToastError (or_else (message err) ''Failed to create checkout session''))
       (emit (ConsoleError err) s)"

definition settle :: "nat \<Rightarrow> state \<Rightarrow> state" where
  "settle i s =
     s\<lparr>inflight := take i (inflight s) @ drop (Suc i) (inflight s),
       isCreatingCheckoutSession :=
         (isCreatingCheckoutSession s \<and> Suc i \<noteq> length (inflight s))\<rparr>"

definition checkout_succeeded :: "nat \<Rightarrow> CreateCheckoutSessionResponse \<Rightarrow> state \<Rightarrow> state" where
  "checkout_succeeded i d s = (if i < length (inflight s) then settle i (onSuccess d s) else s)"

definition checkout_failed :: "nat \<Rightarrow> request_error \<Rightarrow> state \<Rightarrow> state" where
  "checkout_failed i err s = (if i < length (inflight s) then settle i (onError err s) else s)"

section \<open>Purchase initiation and the mount effects\<close>

definition initPurchase :: "config \<Rightarrow> state \<Rightarrow> state" where
  "initPurchase cfg s =
     (if \<not> isLoggedIn s then s
      else createCheckoutSession
             \<lparr>courseId = SQL_COURSE_SLUG,
              success = Some (''/courses/'' @ SQL_COURSE_SLUG @ ''?''
                              @ COURSE_PURCHASE_SUCCESS_PARAM cfg @ ''=1''),
              cancel = Some (''/courses/'' @ SQL_COURSE_SLUG @ ''?''
                             @ COURSE_PURCHASE_SUCCESS_PARAM cfg @ ''=0'')\<rparr> s)"

definition purchaseIntentEffect :: "config \<Rightarrow> state \<Rightarrow> state" where
  "purchaseIntentEffect cfg s =
     (let shouldTriggerPurchase = (getUrlParams s (COURSE_PURCHASE_PARAM cfg) = Some ''1'')
      in if shouldTriggerPurchase
         then initPurchase cfg (deleteUrlParam (COURSE_PURCHASE_PARAM cfg) s)
         else s)"

definition purchaseOutcomeEffect :: "config \<Rightarrow> state \<Rightarrow> state" where
  "purchaseOutcomeEffect cfg s =
     (let param = getUrlParams s (COURSE_PURCHASE_SUCCESS_PARAM cfg)
      in if \<not> truthy param then s
         else deleteUrlParam (COURSE_PURCHASE_SUCCESS_PARAM cfg)
                (if param = Some ''1''
                 then fireEvent (SQL_COURSE_SLUG @ ''_purchase_complete'') ''course''
                        (SQL_COURSE_SLUG @ '' Course Purchase Completed'') None s
                 else fireEvent (SQL_COURSE_SLUG @ ''_purchase_canceled'') ''course''
                        (SQL_COURSE_SLUG @ '' Course Purchase Canceled'') None s))"

text \<open>On mount the two effects run once each, in the order of their declaration.\<close>

definition mount :: "config \<Rightarrow> state \<Rightarrow> state" where
  "mount cfg s = purchaseOutcomeEffect cfg (purchaseIntentEffect cfg s)"

section \<open>Rendering and the click handler\<close>

definition isLoadingPricing :: "state \<Rightarrow> bool" where
  "isLoadingPricing s \<longleftrightarrow>
     isLoadingCourse s \<or> coursePricing s = None \<or> isLoadingCourseProgress s"

definition hasEnrolled :: "state \<Rightarrow> bool" where
  "hasEnrolled s =
     (case courseProgress s of None \<Rightarrow> False
      | Some p \<Rightarrow> (case enrolledAt p of None \<Rightarrow> False | Some t \<Rightarrow> True))"

definition onBuyClick :: "config \<Rightarrow> state \<Rightarrow> state" where
  "onBuyClick cfg s =
     (if \<not> isLoggedIn s then s\<lparr>isLoginPopupOpen := True\<rparr>
      else if hasEnrolled s
      then emit (SetLocationHref (PUBLIC_COURSE_APP_URL cfg @ ''/'' @ SQL_COURSE_SLUG)) s
      else initPurchase cfg s)"

text \<open>
  What a render puts on the page, as far as the purchase flow goes: whether the login
  popup is part of the output, the \<open>disabled\<close> attribute of the button, and whether the
  button carries the class \<open>pointer-events-none\<close>.
\<close>

record rendered =
  courseLoginPopup :: bool
  disabled :: bool
  pointer_events_none :: bool

definition render :: "state \<Rightarrow> rendered" where
  "render s =
     (case variant_prop s of
        VMain \<Rightarrow>
          \<lparr>courseLoginPopup = isLoginPopupOpen s,
           disabled = isLoadingPricing s,
           pointer_events_none = (isLoadingPricing s \<or> isCreatingCheckoutSession s)\<rparr>
      | VTopNav \<Rightarrow>
          \<lparr>courseLoginPopup = False,
           disabled = isLoadingPricing s,
           pointer_events_none = False\<rparr>
      | VFloating \<Rightarrow>
          \<lparr>courseLoginPopup = isLoginPopupOpen s,
           disabled = isLoadingPricing s,
           pointer_events_none = (isLoadingPricing s \<or> isCreatingCheckoutSession s)\<rparr>)"

text \<open>
  A click of the pointer reaches \<open>onBuyClick\<close> unless the button is disabled or carries
  \<open>pointer-events-none\<close>.
\<close>

definition accepts_click :: "state \<Rightarrow> bool" where
  "accepts_click s \<longleftrightarrow> \<not> disabled (render s) \<and> \<not> pointer_events_none (render s)"

definition click :: "config \<Rightarrow> state \<Rightarrow> state" where
  "click cfg s = (if accepts_click s then onBuyClick cfg s else s)"

text \<open>
  Enter or Space on the focused button reaches \<open>onBuyClick\<close> unless the button is
  disabled; the class \<open>pointer-events-none\<close> shields the button from the pointer only.
\<close>

definition activate_by_keyboard :: "config \<Rightarrow> state \<Rightarrow> state" where
  "activate_by_keyboard cfg s = (if disabled (render s) then s else onBuyClick cfg s)"

section \<open>Scenarios\<close>

text \<open>
  A configuration to run the model on, and the state of an instance at its first render:
  the popup closed, both queries loading, no command issued, nothing done yet.
\<close>

definition example_config :: config where
  "example_config =
     \<lparr>COURSE_PURCHASE_PARAM = ''t'',
      COURSE_PURCHASE_SUCCESS_PARAM = ''success'',
      PUBLIC_COURSE_APP_URL = ''https://courses.example''\<rparr>"

definition first_render :: "(string \<times> string) list \<Rightarrow> bool \<Rightarrow> bool \<Rightarrow> variant \<Rightarrow> state" where
  "first_render ps li g v =
     \<lparr>urlParams = map_of ps, loggedIn = li, gtag = g, variant_prop = v,
      isLoginPopupOpen = False, isLoadingCourse = True, coursePricing = None,
      isLoadingCourseProgress = True, courseProgress = None,
      inflight = [], isCreatingCheckoutSession = False, log = []\<rparr>"

text \<open>Both queries have answered.\<close>

definition queries_loaded :: "course_pricing \<Rightarrow> course_progress \<Rightarrow> state \<Rightarrow> state" where
  "queries_loaded p q s =
     s\<lparr>isLoadingCourse := False, coursePricing := Some p,
       isLoadingCourseProgress := False, courseProgress := Some q\<rparr>"

definition example_pricing :: course_pricing where
  "example_pricing = \<lparr>fullPrice = 79, regionalPrice = 59, isEligibleForDiscount = True\<rparr>"

definition not_enrolled :: course_progress where
  "not_enrolled = \<lparr>enrolledAt = None\<rparr>"

definition enrolled :: course_progress where
  "enrolled = \<lparr>enrolledAt = Some (Date 1700000000000)\<rparr>"

text \<open>The effects of a log that are analytics events.\<close>

fun is_analytics_event :: "effect \<Rightarrow> bool" where
  "is_analytics_event (FireEvent a c l cb) = True"
| "is_analytics_event e = False"

definition analytics_events :: "effect list \<Rightarrow> effect list" where
  "analytics_events es = filter is_analytics_event es"

section \<open>Unfolding the model\<close>

lemmas buy_defs = emit_def getUrlParams_def deleteUrlParam_def isLoggedIn_def fireEvent_def
  truthy_def onMutate_def mutationFn_def createCheckoutSession_def onSuccess_def or_else_def
  onError_def settle_def checkout_succeeded_def checkout_failed_def initPurchase_def
  purchaseIntentEffect_def purchaseOutcomeEffect_def mount_def SQL_COURSE_SLUG_def

lemmas ui_defs = isLoadingPricing_def hasEnrolled_def onBuyClick_def render_def
  accepts_click_def click_def activate_by_keyboard_def

lemmas scenario_defs = example_config_def first_render_def queries_loaded_def
  example_pricing_def not_enrolled_def enrolled_def

section \<open>What each step does to the address and to the analytics stream\<close>

lemma urlParams_initPurchase: "urlParams (initPurchase cfg s) = urlParams s"
  by (simp add: buy_defs)

lemma analytics_initPurchase:
  "analytics_events (log (initPurchase cfg s)) = analytics_events (log s)"
  by (simp add: buy_defs analytics_events_def)

lemma deletions_initPurchase:
  "count_list (log (initPurchase cfg s)) (DeleteUrlParam k) = count_list (log s) (DeleteUrlParam k)"
  by (simp add: buy_defs)

lemma log_initPurchase_extends: "take (length (log s)) (log (initPurchase cfg s)) = log s"
  by (simp add: buy_defs)

lemma purchaseIntentEffect_one:
  "urlParams s (COURSE_PURCHASE_PARAM cfg) = Some ''1'' \<Longrightarrow>
     purchaseIntentEffect cfg s = initPurchase cfg (deleteUrlParam (COURSE_PURCHASE_PARAM cfg) s)"
  by (simp add: purchaseIntentEffect_def getUrlParams_def)

lemma purchaseIntentEffect_other:
  "urlParams s (COURSE_PURCHASE_PARAM cfg) \<noteq> Some ''1'' \<Longrightarrow> purchaseIntentEffect cfg s = s"
  by (simp add: purchaseIntentEffect_def getUrlParams_def)

lemma urlParams_purchaseIntentEffect:
  "urlParams (purchaseIntentEffect cfg s) k =
     (if k = COURSE_PURCHASE_PARAM cfg \<and> urlParams s k = Some ''1'' then None else urlParams s k)"
proof (cases "urlParams s (COURSE_PURCHASE_PARAM cfg) = Some ''1''")
  case True
  then show ?thesis
    by (simp add: purchaseIntentEffect_one urlParams_initPurchase)
       (simp add: deleteUrlParam_def emit_def)
next
  case False
  then show ?thesis by (auto simp add: purchaseIntentEffect_other)
qed

lemma analytics_purchaseIntentEffect:
  "analytics_events (log (purchaseIntentEffect cfg s)) = analytics_events (log s)"
  by (simp add: purchaseIntentEffect_def analytics_initPurchase)
     (simp add: deleteUrlParam_def emit_def analytics_events_def)

lemma purchaseOutcomeEffect_falsy:
  "\<not> truthy (urlParams s (COURSE_PURCHASE_SUCCESS_PARAM cfg)) \<Longrightarrow> purchaseOutcomeEffect cfg s = s"
  by (simp add: purchaseOutcomeEffect_def getUrlParams_def)

lemma purchaseOutcomeEffect_truthy:
  assumes "urlParams s (COURSE_PURCHASE_SUCCESS_PARAM cfg) = Some v" and "v \<noteq> []"
  shows "purchaseOutcomeEffect cfg s =
        s\<lparr>urlParams := (urlParams s)(COURSE_PURCHASE_SUCCESS_PARAM cfg := None),
          log := log s @
            [if v = ''1''
             then FireEvent ''sql_purchase_complete'' ''course'' ''sql Course Purchase Completed'' None
             else FireEvent ''sql_purchase_canceled'' ''course'' ''sql Course Purchase Canceled'' None,
             DeleteUrlParam (COURSE_PURCHASE_SUCCESS_PARAM cfg)]\<rparr>"
  using assms by (simp add: buy_defs)

lemma urlParams_purchaseOutcomeEffect:
  "urlParams (purchaseOutcomeEffect cfg s) k =
     (if k = COURSE_PURCHASE_SUCCESS_PARAM cfg \<and> truthy (urlParams s k) then None
      else urlParams s k)"
proof (cases "truthy (urlParams s (COURSE_PURCHASE_SUCCESS_PARAM cfg))")
  case True
  then obtain v where "urlParams s (COURSE_PURCHASE_SUCCESS_PARAM cfg) = Some v" "v \<noteq> []"
    by (auto simp add: truthy_def split: option.splits)
  from purchaseOutcomeEffect_truthy [OF this] True show ?thesis by simp
next
  case False
  then show ?thesis by (auto simp add: purchaseOutcomeEffect_falsy)
qed

lemma deletions_purchaseOutcomeEffect:
  "urlParams s k = None \<Longrightarrow>
     count_list (log (purchaseOutcomeEffect cfg s)) (DeleteUrlParam k) =
     count_list (log s) (DeleteUrlParam k)"
  by (auto simp add: buy_defs Let_def)

lemma log_purchaseOutcomeEffect_extends:
  "take (length (log s)) (log (purchaseOutcomeEffect cfg s)) = log s"
  by (simp add: buy_defs Let_def)

lemma mount_again: "mount cfg (mount cfg s) = mount cfg s"
proof -
  have a: "urlParams (mount cfg s) (COURSE_PURCHASE_PARAM cfg) \<noteq> Some ''1''"
    by (simp add: mount_def urlParams_purchaseOutcomeEffect urlParams_purchaseIntentEffect)
  have b: "\<not> truthy (urlParams (mount cfg s) (COURSE_PURCHASE_SUCCESS_PARAM cfg))"
    by (simp add: mount_def urlParams_purchaseOutcomeEffect urlParams_purchaseIntentEffect)
       (simp add: truthy_def)
  show ?thesis
    unfolding mount_def [of cfg "mount cfg s"]
    by (simp add: purchaseIntentEffect_other [OF a] purchaseOutcomeEffect_falsy [OF b])
qed

text \<open>
  In the main and the floating variant the button ignores the pointer while a command
  is pending.
\<close>

lemma click_ignored_while_creating:
  "variant_prop s \<noteq> VTopNav \<Longrightarrow> isCreatingCheckoutSession s \<Longrightarrow> click cfg s = s"
  by (cases "variant_prop s") (simp_all add: ui_defs)

text \<open>The click handler, branch by branch.\<close>

lemma onBuyClick_branches:
  "(\<not> loggedIn s \<longrightarrow> onBuyClick cfg s = s\<lparr>isLoginPopupOpen := True\<rparr>)
   \<and> (loggedIn s \<and> hasEnrolled s \<longrightarrow>
        onBuyClick cfg s =
          s\<lparr>log := log s @ [SetLocationHref (PUBLIC_COURSE_APP_URL cfg @ ''/sql'')]\<rparr>)
   \<and> (loggedIn s \<and> \<not> hasEnrolled s \<longrightarrow> onBuyClick cfg s = initPurchase cfg s)"
  by (simp add: buy_defs ui_defs)

text \<open>A logged-in, enrolled user who clicks is sent to the course application.\<close>

lemma enrolled_click_goes_to_course:
  "click example_config
     (queries_loaded example_pricing enrolled (first_render [] True True VTopNav)) =
   (queries_loaded example_pricing enrolled (first_render [] True True VTopNav))
     \<lparr>log := [SetLocationHref ''https://courses.example/sql'']\<rparr>"
  by (simp add: buy_defs ui_defs scenario_defs)

text \<open>In the main and the floating variant an open popup is part of the output.\<close>

lemma login_popup_rendered:
  "variant_prop s \<noteq> VTopNav \<Longrightarrow> courseLoginPopup (render s) = isLoginPopupOpen s"
  by (cases "variant_prop s") (simp_all add: render_def)

section \<open>The mount effects\<close>

text \<open>
  C1. On a mount where the purchase-intent parameter has the value \<open>1\<close>, the first effect
  deletes the parameter and then runs the purchase initiation, whatever the identity
  check answers. Over the whole mount the deletion is the first thing done, the parameter
  is deleted exactly once, and it is gone from the address afterwards.
\<close>

theorem purchase_intent_removed_once:
  assumes "urlParams s (COURSE_PURCHASE_PARAM cfg) = Some ''1''"
  shows "purchaseIntentEffect cfg s =
           initPurchase cfg (deleteUrlParam (COURSE_PURCHASE_PARAM cfg) s)
    \<and> take (Suc (length (log s))) (log (mount cfg s)) =
        log s @ [DeleteUrlParam (COURSE_PURCHASE_PARAM cfg)]
    \<and> count_list (log (mount cfg s)) (DeleteUrlParam (COURSE_PURCHASE_PARAM cfg)) =
        Suc (count_list (log s) (DeleteUrlParam (COURSE_PURCHASE_PARAM cfg)))
    \<and> urlParams (mount cfg s) (COURSE_PURCHASE_PARAM cfg) = None"
proof -
  let ?P = "COURSE_PURCHASE_PARAM cfg"
  let ?d = "deleteUrlParam ?P s"
  let ?i = "initPurchase cfg ?d"
  have step: "purchaseIntentEffect cfg s = ?i"
    using assms by (rule purchaseIntentEffect_one)
  have gone: "urlParams ?i ?P = None"
    by (simp add: urlParams_initPurchase) (simp add: deleteUrlParam_def emit_def)
  have log_d: "log ?d = log s @ [DeleteUrlParam ?P]"
    by (simp add: deleteUrlParam_def emit_def)
  have "take (length (log ?d)) (log (purchaseOutcomeEffect cfg ?i)) = log ?d"
    using log_purchaseOutcomeEffect_extends [of ?i cfg] log_initPurchase_extends [of ?d cfg]
    by (metis append_eq_conv_conj append_take_drop_id append.assoc)
  then have first: "take (Suc (length (log s))) (log (mount cfg s)) = log s @ [DeleteUrlParam ?P]"
    by (simp add: mount_def step log_d)
  have "count_list (log (mount cfg s)) (DeleteUrlParam ?P) = count_list (log ?i) (DeleteUrlParam ?P)"
    by (simp add: mount_def step deletions_purchaseOutcomeEffect [OF gone])
  also have "\<dots> = count_list (log ?d) (DeleteUrlParam ?P)"
    by (rule deletions_initPurchase)
  also have "\<dots> = Suc (count_list (log s) (DeleteUrlParam ?P))"
    by (simp add: log_d)
  finally have once: "count_list (log (mount cfg s)) (DeleteUrlParam ?P) =
      Suc (count_list (log s) (DeleteUrlParam ?P))" .
  have after: "urlParams (mount cfg s) ?P = None"
    using gone by (simp add: mount_def step urlParams_purchaseOutcomeEffect)
  from step first once after show ?thesis by simp
qed

theorem purchase_intent_removed_once_witness:
  "urlParams (first_render [(''t'', ''1'')] False True VMain) ''t'' = Some ''1''
   \<and> take 1 (log (mount example_config (first_render [(''t'', ''1'')] False True VMain))) =
       [DeleteUrlParam ''t'']
   \<and> count_list (log (mount example_config (first_render [(''t'', ''1'')] False True VMain)))
       (DeleteUrlParam ''t'') = 1
   \<and> urlParams (mount example_config (first_render [(''t'', ''1'')] False True VMain)) ''t'' = None"
proof -
  have h: "urlParams (first_render [(''t'', ''1'')] False True VMain)
             (COURSE_PURCHASE_PARAM example_config) = Some ''1''"
    by (simp add: scenario_defs)
  show ?thesis
    using h purchase_intent_removed_once [OF h]
    by (simp add: example_config_def) (simp add: first_render_def)
qed

text \<open>
  C2, as stated, fails on a parameter that is present with the empty value: the guard
  \<open>if (!param) return\<close> takes the empty string for an absent parameter, so no event is
  fired and the parameter stays in the address.
\<close>

theorem purchase_outcome_empty_value_counterexample:
  "urlParams (first_render [(''success'', '''')] True True VMain)
      (COURSE_PURCHASE_SUCCESS_PARAM example_config) = Some ''''
   \<and> purchaseOutcomeEffect example_config (first_render [(''success'', '''')] True True VMain) =
       first_render [(''success'', '''')] True True VMain
   \<and> analytics_events
       (log (mount example_config (first_render [(''success'', '''')] True True VMain))) = []
   \<and> urlParams (mount example_config (first_render [(''success'', '''')] True True VMain))
       (COURSE_PURCHASE_SUCCESS_PARAM example_config) = Some ''''"
  by (simp add: buy_defs scenario_defs analytics_events_def)

text \<open>
  C2, amended. On a mount where the purchase-outcome parameter is present with a
  non-empty value, the second effect fires exactly one analytics event,
  \<open>sql_purchase_complete\<close> for the value \<open>1\<close> and \<open>sql_purchase_canceled\<close> for any other,
  and then deletes the parameter; when the two parameter names differ, that event is the
  only analytics event of the whole mount and the parameter is gone afterwards. On a
  mount where the parameter is absent, the second effect changes nothing and the mount
  fires no analytics event.
\<close>

theorem purchase_outcome_reported_once:
  "(\<forall>v. urlParams s (COURSE_PURCHASE_SUCCESS_PARAM cfg) = Some v \<and> v \<noteq> [] \<longrightarrow>
      purchaseOutcomeEffect cfg s =
        s\<lparr>urlParams := (urlParams s)(COURSE_PURCHASE_SUCCESS_PARAM cfg := None),
          log := log s @
            [if v = ''1''
             then FireEvent ''sql_purchase_complete'' ''course'' ''sql Course Purchase Completed'' None
             else FireEvent ''sql_purchase_canceled'' ''course'' ''sql Course Purchase Canceled'' None,
             DeleteUrlParam (COURSE_PURCHASE_SUCCESS_PARAM cfg)]\<rparr>
      \<and> (COURSE_PURCHASE_PARAM cfg \<noteq> COURSE_PURCHASE_SUCCESS_PARAM cfg \<longrightarrow>
           analytics_events (log (mount cfg s)) = analytics_events (log s) @
            [if v = ''1''
             then FireEvent ''sql_purchase_complete'' ''course'' ''sql Course Purchase Completed'' None
             else FireEvent ''sql_purchase_canceled'' ''course'' ''sql Course Purchase Canceled'' None]
           \<and> urlParams (mount cfg s) (COURSE_PURCHASE_SUCCESS_PARAM cfg) = None))
   \<and> (urlParams s (COURSE_PURCHASE_SUCCESS_PARAM cfg) = None \<longrightarrow>
        purchaseOutcomeEffect cfg s = s
        \<and> mount cfg s = purchaseIntentEffect cfg s
        \<and> analytics_events (log (mount cfg s)) = analytics_events (log s))"
proof (intro conjI allI impI)
  fix v
  assume h: "urlParams s (COURSE_PURCHASE_SUCCESS_PARAM cfg) = Some v \<and> v \<noteq> []"
  then show "purchaseOutcomeEffect cfg s =
        s\<lparr>urlParams := (urlParams s)(COURSE_PURCHASE_SUCCESS_PARAM cfg := None),
          log := log s @
            [if v = ''1''
             then FireEvent ''sql_purchase_complete'' ''course'' ''sql Course Purchase Completed'' None
             else FireEvent ''sql_purchase_canceled'' ''course'' ''sql Course Purchase Canceled'' None,
             DeleteUrlParam (COURSE_PURCHASE_SUCCESS_PARAM cfg)]\<rparr>"
    by (simp add: purchaseOutcomeEffect_truthy)
  assume d: "COURSE_PURCHASE_PARAM cfg \<noteq> COURSE_PURCHASE_SUCCESS_PARAM cfg"
  have u: "urlParams (purchaseIntentEffect cfg s) (COURSE_PURCHASE_SUCCESS_PARAM cfg) = Some v"
    using h d by (simp add: urlParams_purchaseIntentEffect)
  from h have v: "v \<noteq> []" by simp
  show "analytics_events (log (mount cfg s)) = analytics_events (log s) @
            [if v = ''1''
             then FireEvent ''sql_purchase_complete'' ''course'' ''sql Course Purchase Completed'' None
             else FireEvent ''sql_purchase_canceled'' ''course'' ''sql Course Purchase Canceled'' None]"
    unfolding mount_def purchaseOutcomeEffect_truthy [OF u v]
    using analytics_purchaseIntentEffect [of cfg s]
    by (simp add: analytics_events_def)
  show "urlParams (mount cfg s) (COURSE_PURCHASE_SUCCESS_PARAM cfg) = None"
    unfolding mount_def purchaseOutcomeEffect_truthy [OF u v] by simp
next
  assume n: "urlParams s (COURSE_PURCHASE_SUCCESS_PARAM cfg) = None"
  then show "purchaseOutcomeEffect cfg s = s"
    by (simp add: purchaseOutcomeEffect_falsy truthy_def)
  have "\<not> truthy (urlParams (purchaseIntentEffect cfg s) (COURSE_PURCHASE_SUCCESS_PARAM cfg))"
    using n by (simp add: urlParams_purchaseIntentEffect truthy_def)
  then show m: "mount cfg s = purchaseIntentEffect cfg s"
    by (simp add: mount_def purchaseOutcomeEffect_falsy)
  show "analytics_events (log (mount cfg s)) = analytics_events (log s)"
    by (simp add: m analytics_purchaseIntentEffect)
qed

theorem purchase_outcome_reported_once_witness:
  "analytics_events (log (mount example_config (first_render [(''success'', ''1'')] True True VMain))) =
     [FireEvent ''sql_purchase_complete'' ''course'' ''sql Course Purchase Completed'' None]
   \<and> analytics_events (log (mount example_config (first_render [(''success'', ''0'')] True True VMain))) =
     [FireEvent ''sql_purchase_canceled'' ''course'' ''sql Course Purchase Canceled'' None]
   \<and> urlParams (mount example_config (first_render [(''success'', ''0'')] True True VMain)) ''success'' = None
   \<and> analytics_events (log (mount example_config (first_render [] True True VMain))) = []"
proof -
  let ?S = "COURSE_PURCHASE_SUCCESS_PARAM example_config"
  let ?s1 = "first_render [(''success'', ''1'')] True True VMain"
  let ?s0 = "first_render [(''success'', ''0'')] True True VMain"
  let ?sn = "first_render [] True True VMain"
  have d: "COURSE_PURCHASE_PARAM example_config \<noteq> ?S"
    by (simp add: example_config_def)
  have h1: "urlParams ?s1 ?S = Some ''1'' \<and> ''1'' \<noteq> []"
    by (simp add: scenario_defs)
  have h0: "urlParams ?s0 ?S = Some ''0'' \<and> ''0'' \<noteq> []"
    by (simp add: scenario_defs)
  have hn: "urlParams ?sn ?S = None"
    by (simp add: scenario_defs)
  from purchase_outcome_reported_once [of ?s1 example_config] h1 d
  have a: "analytics_events (log (mount example_config ?s1)) = analytics_events (log ?s1) @
      [FireEvent ''sql_purchase_complete'' ''course'' ''sql Course Purchase Completed'' None]"
    by auto
  from purchase_outcome_reported_once [of ?s0 example_config] h0 d
  have b: "analytics_events (log (mount example_config ?s0)) = analytics_events (log ?s0) @
      [FireEvent ''sql_purchase_canceled'' ''course'' ''sql Course Purchase Canceled'' None]
      \<and> urlParams (mount example_config ?s0) ?S = None"
    by auto
  from purchase_outcome_reported_once [of ?sn example_config] hn
  have c: "analytics_events (log (mount example_config ?sn)) = analytics_events (log ?sn)"
    by blast
  have e: "analytics_events (log ?s1) = [] \<and> analytics_events (log ?s0) = []
      \<and> analytics_events (log ?sn) = [] \<and> ?S = ''success''"
    by (simp add: scenario_defs analytics_events_def)
  from a b c e show ?thesis by simp
qed


text \<open>
  C8. A mount on an address from which both parameters have been stripped changes
  nothing: neither effect deletes anything, issues a command or fires an event. In
  particular a second mount, run on the state the first one leaves, is a no-op whatever
  the address held at first and whether or not the user is logged in.
\<close>

theorem remount_is_noop:
  "(urlParams s (COURSE_PURCHASE_PARAM cfg) = None
      \<and> urlParams s (COURSE_PURCHASE_SUCCESS_PARAM cfg) = None \<longrightarrow>
        purchaseIntentEffect cfg s = s \<and> purchaseOutcomeEffect cfg s = s \<and> mount cfg s = s)
   \<and> mount cfg (mount cfg s) = mount cfg s"
  by (simp add: mount_again)
     (simp add: mount_def purchaseIntentEffect_other purchaseOutcomeEffect_falsy truthy_def)

theorem remount_is_noop_witness:
  "mount example_config (first_render [] True True VMain) = first_render [] True True VMain
   \<and> mount example_config
        (mount example_config (first_render [(''t'', ''1''), (''success'', ''1'')] True True VMain)) =
      mount example_config (first_render [(''t'', ''1''), (''success'', ''1'')] True True VMain)"
proof -
  have h: "urlParams (first_render [] True True VMain) (COURSE_PURCHASE_PARAM example_config) = None
      \<and> urlParams (first_render [] True True VMain)
           (COURSE_PURCHASE_SUCCESS_PARAM example_config) = None"
    by (simp add: scenario_defs)
  from remount_is_noop [of "first_render [] True True VMain" example_config] h
  have a: "mount example_config (first_render [] True True VMain) = first_render [] True True VMain"
    by blast
  from remount_is_noop
         [of "first_render [(''t'', ''1''), (''success'', ''1'')] True True VMain" example_config]
  have b: "mount example_config
        (mount example_config (first_render [(''t'', ''1''), (''success'', ''1'')] True True VMain)) =
      mount example_config (first_render [(''t'', ''1''), (''success'', ''1'')] True True VMain)"
    by blast
  from a b show ?thesis by (rule conjI)
qed

text \<open>
  C9. On a mount where the purchase-outcome parameter is present with the empty value,
  the second effect leaves the state as it is: the mount fires no analytics event and
  the parameter, still empty, stays in the address, as if it had been absent.
\<close>

theorem purchase_outcome_empty_is_absent:
  assumes "urlParams s (COURSE_PURCHASE_SUCCESS_PARAM cfg) = Some []"
  shows "purchaseOutcomeEffect cfg s = s
     \<and> mount cfg s = purchaseIntentEffect cfg s
     \<and> analytics_events (log (mount cfg s)) = analytics_events (log s)
     \<and> urlParams (mount cfg s) (COURSE_PURCHASE_SUCCESS_PARAM cfg) = Some []"
proof -
  have a: "purchaseOutcomeEffect cfg s = s"
    using assms by (simp add: purchaseOutcomeEffect_falsy truthy_def)
  have u: "urlParams (purchaseIntentEffect cfg s) (COURSE_PURCHASE_SUCCESS_PARAM cfg) = Some []"
    using assms by (simp add: urlParams_purchaseIntentEffect)
  then have b: "mount cfg s = purchaseIntentEffect cfg s"
    by (simp add: mount_def purchaseOutcomeEffect_falsy truthy_def)
  from a b u show ?thesis
    by (simp add: analytics_purchaseIntentEffect)
qed

theorem purchase_outcome_empty_is_absent_witness:
  "urlParams (first_render [(''success'', '''')] True True VMain) ''success'' = Some ''''
   \<and> purchaseOutcomeEffect example_config (first_render [(''success'', '''')] True True VMain) =
       first_render [(''success'', '''')] True True VMain
   \<and> analytics_events
        (log (mount example_config (first_render [(''success'', '''')] True True VMain))) = []
   \<and> urlParams (mount example_config (first_render [(''success'', '''')] True True VMain))
        ''success'' = Some ''''"
proof -
  let ?s = "first_render [(''success'', '''')] True True VMain"
  have h: "urlParams ?s (COURSE_PURCHASE_SUCCESS_PARAM example_config) = Some []"
    by (simp add: scenario_defs)
  have e: "analytics_events (log ?s) = []"
    by (simp add: scenario_defs analytics_events_def)
  have k: "COURSE_PURCHASE_SUCCESS_PARAM example_config = ''success''"
    by (simp add: example_config_def)
  note t = purchase_outcome_empty_is_absent [OF h]
  from t have a: "purchaseOutcomeEffect example_config ?s = ?s"
    by (rule conjunct1)
  from t have "analytics_events (log (mount example_config ?s)) = analytics_events (log ?s)"
    by blast
  with e have b: "analytics_events (log (mount example_config ?s)) = []"
    by simp
  from t have c: "urlParams (mount example_config ?s)
      (COURSE_PURCHASE_SUCCESS_PARAM example_config) = Some []"
    by blast
  from h c show ?thesis
    unfolding k using a b by simp
qed

text \<open>
  C10. On a mount where the purchase-intent parameter is present with a value other
  than \<open>1\<close>, the first effect leaves the state as it is; when the two parameter names
  differ, the whole mount issues no command and the parameter keeps its value in the
  address.
\<close>

theorem purchase_intent_other_value_kept:
  assumes "urlParams s (COURSE_PURCHASE_PARAM cfg) = Some v" and "v \<noteq> ''1''"
  shows "purchaseIntentEffect cfg s = s
     \<and> (COURSE_PURCHASE_PARAM cfg \<noteq> COURSE_PURCHASE_SUCCESS_PARAM cfg \<longrightarrow>
          urlParams (mount cfg s) (COURSE_PURCHASE_PARAM cfg) = Some v
          \<and> inflight (mount cfg s) = inflight s
          \<and> count_list (log (mount cfg s)) (DeleteUrlParam (COURSE_PURCHASE_PARAM cfg)) =
              count_list (log s) (DeleteUrlParam (COURSE_PURCHASE_PARAM cfg)))"
proof -
  have a: "purchaseIntentEffect cfg s = s"
    using assms by (simp add: purchaseIntentEffect_other)
  have "inflight (purchaseOutcomeEffect cfg s) = inflight s"
    by (simp add: buy_defs Let_def)
  moreover have "COURSE_PURCHASE_PARAM cfg \<noteq> COURSE_PURCHASE_SUCCESS_PARAM cfg \<Longrightarrow>
      count_list (log (purchaseOutcomeEffect cfg s)) (DeleteUrlParam (COURSE_PURCHASE_PARAM cfg)) =
      count_list (log s) (DeleteUrlParam (COURSE_PURCHASE_PARAM cfg))"
    by (simp add: buy_defs Let_def)
  ultimately show ?thesis
    using assms a by (simp add: mount_def urlParams_purchaseOutcomeEffect)
qed

theorem purchase_intent_other_value_kept_witness:
  "urlParams (first_render [(''t'', ''0'')] True True VMain) ''t'' = Some ''0''
   \<and> purchaseIntentEffect example_config (first_render [(''t'', ''0'')] True True VMain) =
       first_render [(''t'', ''0'')] True True VMain
   \<and> urlParams (mount example_config (first_render [(''t'', ''0'')] True True VMain)) ''t'' = Some ''0''
   \<and> inflight (mount example_config (first_render [(''t'', ''0'')] True True VMain)) = []"
proof -
  let ?s = "first_render [(''t'', ''0'')] True True VMain"
  have h: "urlParams ?s (COURSE_PURCHASE_PARAM example_config) = Some ''0''"
    by (simp add: scenario_defs)
  have n: "''0'' \<noteq> ''1''"
    by simp
  have d: "COURSE_PURCHASE_PARAM example_config \<noteq> COURSE_PURCHASE_SUCCESS_PARAM example_config"
    by (simp add: example_config_def)
  have k: "COURSE_PURCHASE_PARAM example_config = ''t''"
    by (simp add: example_config_def)
  have e: "inflight ?s = []"
    by (simp add: first_render_def)
  note t = purchase_intent_other_value_kept [OF h n]
  from t have a: "purchaseIntentEffect example_config ?s = ?s"
    by (rule conjunct1)
  from t d have b: "urlParams (mount example_config ?s) (COURSE_PURCHASE_PARAM example_config) =
      Some ''0'' \<and> inflight (mount example_config ?s) = inflight ?s"
    by blast
  from h b show ?thesis
    unfolding k using a e by simp
qed

section \<open>Purchase initiation and the checkout-session command\<close>

text \<open>
  C7. The purchase initiation changes nothing when the identity check answers no: no
  command, no popup, no notification. When it answers yes, it issues one
  checkout-session command whose success and cancel paths are the same address of the
  course page, ending in \<open>1\<close> for success and in \<open>0\<close> for cancel.
\<close>

theorem initPurchase_silent_or_command:
  "(\<not> loggedIn s \<longrightarrow> initPurchase cfg s = s)
   \<and> (loggedIn s \<longrightarrow> initPurchase cfg s =
        s\<lparr>inflight := inflight s @
             [\<lparr>courseId = ''sql'',
               success = Some ((''/courses/sql?'' @ COURSE_PURCHASE_SUCCESS_PARAM cfg @ ''='') @ ''1''),
               cancel = Some ((''/courses/sql?'' @ COURSE_PURCHASE_SUCCESS_PARAM cfg @ ''='') @ ''0'')\<rparr>],
           isCreatingCheckoutSession := True,
           log := log s @
             [ToastLoading ''Creating checkout session...'',
              HttpPost ''/v1-create-checkout-session''
                \<lparr>courseId = ''sql'',
                 success = Some ((''/courses/sql?'' @ COURSE_PURCHASE_SUCCESS_PARAM cfg @ ''='') @ ''1''),
                 cancel = Some ((''/courses/sql?'' @ COURSE_PURCHASE_SUCCESS_PARAM cfg @ ''='') @ ''0'')\<rparr>]\<rparr>)"
  by (simp add: buy_defs)

theorem initPurchase_silent_or_command_witness:
  "initPurchase example_config (first_render [] False True VMain) = first_render [] False True VMain
   \<and> inflight (initPurchase example_config (first_render [] True True VMain)) =
       [\<lparr>courseId = ''sql'', success = Some ''/courses/sql?success=1'',
         cancel = Some ''/courses/sql?success=0''\<rparr>]
   \<and> log (initPurchase example_config (first_render [] True True VMain)) =
       [ToastLoading ''Creating checkout session...'',
        HttpPost ''/v1-create-checkout-session''
          \<lparr>courseId = ''sql'', success = Some ''/courses/sql?success=1'',
           cancel = Some ''/courses/sql?success=0''\<rparr>]"
proof -
  have h: "\<not> loggedIn (first_render [] False True VMain) \<and> loggedIn (first_render [] True True VMain)
      \<and> inflight (first_render [] True True VMain) = [] \<and> log (first_render [] True True VMain) = []
      \<and> COURSE_PURCHASE_SUCCESS_PARAM example_config = ''success''"
    by (simp add: scenario_defs)
  from initPurchase_silent_or_command [of "first_render [] False True VMain" example_config] h
  have a: "initPurchase example_config (first_render [] False True VMain) =
      first_render [] False True VMain"
    by blast
  from initPurchase_silent_or_command [of "first_render [] True True VMain" example_config] h
  show ?thesis by (simp add: a)
qed

text \<open>
  C3. The success handler of the checkout-session command. Without the analytics
  capability it assigns \<open>checkoutUrl\<close> to the location at once and does nothing else: no
  event, no timer. With it, it fires \<open>sql_begin_checkout\<close> with a callback that assigns
  \<open>checkoutUrl\<close> to the location, and arms a timer of 3000 ms that does the same.
\<close>

theorem checkout_success_redirects:
  "(\<not> gtag s \<longrightarrow> onSuccess d s = s\<lparr>log := log s @ [SetLocationHref (checkoutUrl d)]\<rparr>)
   \<and> (gtag s \<longrightarrow> onSuccess d s = s\<lparr>log := log s @
         [FireEvent ''sql_begin_checkout'' ''course'' ''sql Course Checkout Started''
            (Some [SetLocationHref (checkoutUrl d)]),
          SetTimeout [SetLocationHref (checkoutUrl d)] 3000]\<rparr>)"
  by (simp add: buy_defs)

theorem checkout_success_redirects_witness:
  "log (onSuccess \<lparr>checkoutUrl = ''https://pay.example/cs_1''\<rparr> (first_render [] True False VMain)) =
     [SetLocationHref ''https://pay.example/cs_1'']
   \<and> log (onSuccess \<lparr>checkoutUrl = ''https://pay.example/cs_1''\<rparr> (first_render [] True True VMain)) =
     [FireEvent ''sql_begin_checkout'' ''course'' ''sql Course Checkout Started''
        (Some [SetLocationHref ''https://pay.example/cs_1'']),
      SetTimeout [SetLocationHref ''https://pay.example/cs_1''] 3000]"
proof -
  have h: "\<not> gtag (first_render [] True False VMain) \<and> gtag (first_render [] True True VMain)
      \<and> log (first_render [] True False VMain) = [] \<and> log (first_render [] True True VMain) = []"
    by (simp add: scenario_defs)
  from checkout_success_redirects
         [of "first_render [] True False VMain" "\<lparr>checkoutUrl = ''https://pay.example/cs_1''\<rparr>"] h
  have a: "log (onSuccess \<lparr>checkoutUrl = ''https://pay.example/cs_1''\<rparr>
      (first_render [] True False VMain)) = [SetLocationHref ''https://pay.example/cs_1'']"
    by simp
  from checkout_success_redirects
         [of "first_render [] True True VMain" "\<lparr>checkoutUrl = ''https://pay.example/cs_1''\<rparr>"] h
  show ?thesis by (simp add: a)
qed




section \<open>The button in the top navigation\<close>

text \<open>
  C4. In the top-nav variant the button is neither disabled nor shielded from the
  pointer while a checkout-session command is pending: with pricing loaded and the
  user logged in and not enrolled, a first click issues a command, the button still
  takes clicks while that command is pending, and a second click issues a second
  command, so that two are pending at once.
\<close>

theorem top_nav_second_click_while_pending:
  "length (inflight (click example_config
       (queries_loaded example_pricing not_enrolled (first_render [] True True VTopNav)))) = 1
   \<and> isCreatingCheckoutSession (click example_config
       (queries_loaded example_pricing not_enrolled (first_render [] True True VTopNav)))
   \<and> accepts_click (click example_config
       (queries_loaded example_pricing not_enrolled (first_render [] True True VTopNav)))
   \<and> length (inflight (click example_config (click example_config
       (queries_loaded example_pricing not_enrolled (first_render [] True True VTopNav))))) = 2"
  by (simp add: buy_defs ui_defs scenario_defs)

text \<open>
  C6. In the top-nav variant a click by a user who is not logged in sets the popup
  flag, issues no command and leaves the address alone, but the output of the variant
  holds no login popup, so none opens; the main variant shows it on the same click.
\<close>

theorem top_nav_click_renders_no_login_popup:
  "isLoginPopupOpen (click example_config
       (queries_loaded example_pricing not_enrolled (first_render [] False True VTopNav)))
   \<and> \<not> courseLoginPopup (render (click example_config
       (queries_loaded example_pricing not_enrolled (first_render [] False True VTopNav))))
   \<and> log (click example_config
       (queries_loaded example_pricing not_enrolled (first_render [] False True VTopNav))) = []
   \<and> inflight (click example_config
       (queries_loaded example_pricing not_enrolled (first_render [] False True VTopNav))) = []
   \<and> courseLoginPopup (render (click example_config
       (queries_loaded example_pricing not_enrolled (first_render [] False True VMain))))"
  by (simp add: buy_defs ui_defs scenario_defs)


end
